theory Spec2Isabelle
  imports Complex_Main "HOL-Library.Multiset"
begin

chapter \<open>The autoencoder of Autoencoder-HybirdMovieRec\<close>

text \<open>
  A shallow embedding of \<^verbatim>\<open>src/model/autoencoder.py\<close> and
  \<^verbatim>\<open>src/model/embedding.py\<close>. Python floats are real numbers here: rounding,
  infinities and saturation of the 32-bit and 64-bit formats are not modelled (the one
  special value kept is the \<open>nan\<close> that a mean over no elements yields). NumPy, PyTorch,
  NLTK and scikit-learn are libraries outside the repository: what they compute
  deterministically is defined below as their documentation states it, what they draw
  at random or compute by automatic differentiation is a parameter (a record of
  functions over an explicit generator state). Device transfers (\<^verbatim>\<open>.cuda()\<close>) and
  printing are left out.
\<close>

section \<open>Exceptions\<close>

datatype error =
    IndexError
  | ValueError
  | TypeError
  | RuntimeError
  | ZeroDivisionError
  | FileNotFoundError

section \<open>Splitting the rows: \<^verbatim>\<open>get_cv_idxs\<close> and \<^verbatim>\<open>split_by_idx\<close>\<close>

text \<open>
  NumPy's global generator: \<^verbatim>\<open>np.random.seed\<close> replaces its state by one that the
  seed alone determines, \<^verbatim>\<open>np.random.permutation(n)\<close> reads the state, returns an
  arrangement of \<open>0, \<dots>, n - 1\<close> and leaves a new state.
\<close>

record 'g np_random =
  np_seed :: "nat \<Rightarrow> 'g"
  np_permutation :: "'g \<Rightarrow> nat \<Rightarrow> nat list \<times> 'g"

text \<open>\<^verbatim>\<open>int(x)\<close> of a float: the fractional part is dropped, towards zero.\<close>

definition py_int :: "real \<Rightarrow> int" where
  "py_int x = (if 0 \<le> x then \<lfloor>x\<rfloor> else \<lceil>x\<rceil>)"

text \<open>
  A slice \<^verbatim>\<open>xs[start:stop]\<close>: a negative bound counts from the end, and both bounds
  are clipped to the sequence.
\<close>

definition slice_bound :: "nat \<Rightarrow> int \<Rightarrow> nat" where
  "slice_bound len i = (if i < 0 then nat (int len + i) else min len (nat i))"

definition py_slice :: "'a list \<Rightarrow> int \<Rightarrow> int \<Rightarrow> 'a list" where
  "py_slice xs start stop =
     (let a = slice_bound (length xs) start;
          b = slice_bound (length xs) stop
      in take (b - a) (drop a xs))"

text \<open>
  \<^verbatim>\<open>
  def get_cv_idxs(n, cv_idx=0, val_pct=0.2, seed=0):
      np.random.seed(seed)
      n_val = int(val_pct * n)
      idx_start = cv_idx * n_val
      idxs = np.random.permutation(n)
      return idxs[idx_start:idx_start + n_val]
  \<close>
  \<^verbatim>\<open>np.random.seed\<close> refuses a seed outside \<open>0 \<dots> 2\<^sup>3\<^sup>2 - 1\<close>. The generator
  state is passed in and returned.
\<close>

definition get_cv_idxs ::
  "'g np_random \<Rightarrow> nat \<Rightarrow> int \<Rightarrow> real \<Rightarrow> int \<Rightarrow> 'g \<Rightarrow> (error + nat list) \<times> 'g" where
  "get_cv_idxs np n cv_idx val_pct seed g =
     (if seed < 0 \<or> 2 ^ 32 \<le> seed then (Inl ValueError, g)
      else
        let g1 = np_seed np (nat seed);
            n_val = py_int (val_pct * real n);
            idx_start = cv_idx * n_val;
            (idxs, g2) = np_permutation np g1 n
        in (Inr (py_slice idxs idx_start (idx_start + n_val)), g2))"

text \<open>\<^verbatim>\<open>mask[np.array(idxs)] = True\<close>, for indices within the mask.\<close>

definition set_mask :: "nat list \<Rightarrow> bool list \<Rightarrow> bool list" where
  "set_mask idxs msk = fold (\<lambda>i m. m[i := True]) idxs msk"

text \<open>\<^verbatim>\<open>o[mask]\<close>: the rows at which the mask holds, in the order of \<open>o\<close>.\<close>

definition bool_index :: "'a list \<Rightarrow> bool list \<Rightarrow> 'a list" where
  "bool_index xs msk = map fst (filter snd (zip xs msk))"

text \<open>
  \<^verbatim>\<open>
  def split_by_idx(idxs, *a):
      mask = np.zeros(len(a[0]), dtype=bool)
      mask[np.array(idxs)] = True
      return [(o[mask], o[~mask]) for o in a]
  \<close>
  The indices are those \<^verbatim>\<open>get_cv_idxs\<close> returns: natural numbers. An index beyond the
  mask, no array at all, or an array whose length is not the mask's, raises
  \<^verbatim>\<open>IndexError\<close>.
\<close>

definition split_by_idx :: "nat list \<Rightarrow> 'a list list \<Rightarrow> error + ('a list \<times> 'a list) list" where
  "split_by_idx idxs a =
     (case a of
        [] \<Rightarrow> Inl IndexError
      | a0 # _ \<Rightarrow>
          if \<not> list_all (\<lambda>i. i < length a0) idxs then Inl IndexError
          else
            let msk = set_mask idxs (replicate (length a0) False)
            in if \<not> list_all (\<lambda>o'. length o' = length msk) a then Inl IndexError
               else Inr (map (\<lambda>o'. (bool_index o' msk, bool_index o' (map Not msk))) a))"

text \<open>
  The first lines of \<^verbatim>\<open>AutoEncoder.__init__\<close>:
  \<^verbatim>\<open>
  self.val_idxs = get_cv_idxs(n=data.shape[0], val_pct=validation_perc)
  [(self.val, self.train)] = split_by_idx(self.val_idxs, data)
  \<close>
\<close>

definition split_data ::
  "'g np_random \<Rightarrow> 'a list \<Rightarrow> real \<Rightarrow> 'g \<Rightarrow> (error + nat list \<times> 'a list \<times> 'a list) \<times> 'g" where
  "split_data np data validation_perc g =
     (case get_cv_idxs np (length data) 0 validation_perc 0 g of
        (Inl e, g') \<Rightarrow> (Inl e, g')
      | (Inr val_idxs, g') \<Rightarrow>
          (case split_by_idx val_idxs [data] of
             Inl e \<Rightarrow> (Inl e, g')
           | Inr [(val, train)] \<Rightarrow> (Inr (val_idxs, val, train), g')
           | Inr _ \<Rightarrow> (Inl ValueError, g')))"

section \<open>Tensors, layers and the forward pass\<close>

text \<open>
  A two-dimensional tensor (a batch) is the list of its rows. A batch without rows
  carries no width: it passes every width check below.
\<close>

type_synonym tensor = "real list list"

definition width :: "tensor \<Rightarrow> nat" where
  "width x = (case x of [] \<Rightarrow> 0 | r # _ \<Rightarrow> length r)"

text \<open>
  The modules the two networks are built from, each with its parameters and buffers:
  \<^item> \<open>Linear in_features out_features weight bias\<close>, the weight with one row per output;
  \<^item> \<open>BatchNorm1d num_features weight bias running_mean running_var num_batches_tracked\<close>;
  \<^item> \<open>ReLU\<close>, \<open>Dropout p\<close>, \<open>Sigmoid\<close>.
\<close>

datatype layer =
    Linear nat nat "real list list" "real list"
  | BatchNorm1d nat "real list" "real list" "real list" "real list" nat
  | ReLU
  | Dropout real
  | Sigmoid

text \<open>
  What PyTorch draws at random and what it differentiates, over an explicit generator
  state \<open>'t\<close>, gradients \<open>'g\<close> and optimizer states \<open>'o\<close>:
  \<^item> \<open>manual_seed\<close>: the generator state a seed determines;
  \<^item> \<open>uniform t b\<close>: a table of draws from \<open>[-b, b]\<close> (initial weights);
  \<^item> \<open>bernoulli t q\<close>: a table of keep/drop decisions, keep with probability \<open>q\<close>;
  \<^item> \<open>randperm t n\<close>: the order in which a shuffling loader visits \<open>n\<close> samples;
  \<^item> \<open>backward\<close>: the gradients of the loss with respect to the encoder's and the
    decoder's parameters, a function of everything the forward pass read (both
    networks with their modes, the generator state, the input and the target);
  \<^item> \<open>accumulate\<close>: the sum of two gradients;
  \<^item> \<open>adam\<close>: a fresh Adam optimizer for a network, learning rate and weight decay;
  \<^item> \<open>adam_step\<close>: one update of a network from its accumulated gradient.
\<close>

record ('t, 'g, 'o) torch =
  manual_seed :: "int \<Rightarrow> 't"
  uniform :: "'t \<Rightarrow> real \<Rightarrow> (nat \<Rightarrow> nat \<Rightarrow> real) \<times> 't"
  bernoulli :: "'t \<Rightarrow> real \<Rightarrow> (nat \<Rightarrow> nat \<Rightarrow> bool) \<times> 't"
  randperm :: "'t \<Rightarrow> nat \<Rightarrow> nat list \<times> 't"
  backward :: "layer list \<times> bool \<Rightarrow> layer list \<times> bool \<Rightarrow> 't \<Rightarrow> tensor \<Rightarrow> tensor \<Rightarrow> 'g \<times> 'g"
  accumulate :: "'g \<Rightarrow> 'g \<Rightarrow> 'g"
  adam :: "layer list \<Rightarrow> real \<Rightarrow> real \<Rightarrow> 'o"
  adam_step :: "'o \<Rightarrow> layer list \<Rightarrow> 'g option \<Rightarrow> layer list \<times> 'o"

subsection \<open>Constructors\<close>

text \<open>
  \<^verbatim>\<open>nn.Linear(i, out)\<close> draws its weight (\<open>out\<close> rows of \<open>i\<close> entries) and its bias
  from \<open>[-1/\<surd>i, 1/\<surd>i]\<close>; \<^verbatim>\<open>nn.BatchNorm1d(n)\<close> starts with weight one, bias
  zero, running mean zero, running variance one and no batch tracked.
\<close>

definition nn_Linear :: "('t, 'g, 'o) torch \<Rightarrow> nat \<Rightarrow> nat \<Rightarrow> 't \<Rightarrow> layer \<times> 't" where
  "nn_Linear lib i out t =
     (let bound = 1 / sqrt (real i);
          (w, t1) = uniform lib t bound;
          (b, t2) = uniform lib t1 bound
      in (Linear i out (map (\<lambda>r. map (w r) [0..<i]) [0..<out]) (map (b 0) [0..<out]), t2))"

definition nn_BatchNorm1d :: "nat \<Rightarrow> layer" where
  "nn_BatchNorm1d n = BatchNorm1d n (replicate n 1) (replicate n 0) (replicate n 0) (replicate n 1) 0"

text \<open>
  \<^verbatim>\<open>
  class Encoder(nn.Module):
      def __init__(self, input_size, intermediate_size, encoding_size, is_enable_bath_norm):
          if is_enable_bath_norm:
              self.encoder = nn.Sequential(
                  nn.Linear(input_size, intermediate_size), nn.BatchNorm1d(intermediate_size),
                  nn.ReLU(True), nn.Dropout(0.2),
                  nn.Linear(intermediate_size, encoding_size), nn.BatchNorm1d(encoding_size),
                  nn.ReLU(True), nn.Dropout(0.2))
          else:
              self.encoder = nn.Sequential(
                  nn.Linear(input_size, intermediate_size), nn.ReLU(True),
                  nn.Linear(intermediate_size, encoding_size), nn.ReLU(True))
  \<close>
\<close>

definition Encoder ::
  "('t, 'g, 'o) torch \<Rightarrow> nat \<Rightarrow> nat \<Rightarrow> nat \<Rightarrow> bool \<Rightarrow> 't \<Rightarrow> layer list \<times> 't" where
  "Encoder lib input_size intermediate_size encoding_size is_enable_bath_norm t =
     (let (l1, t1) = nn_Linear lib input_size intermediate_size t;
          (l2, t2) = nn_Linear lib intermediate_size encoding_size t1
      in if is_enable_bath_norm then
           ([l1, nn_BatchNorm1d intermediate_size, ReLU, Dropout 0.2,
             l2, nn_BatchNorm1d encoding_size, ReLU, Dropout 0.2], t2)
         else ([l1, ReLU, l2, ReLU], t2))"

text \<open>
  \<^verbatim>\<open>
  class Decoder(nn.Module):
      def __init__(self, output_size, intermediate_size, encoding_size, is_enable_bath_norm):
          if is_enable_bath_norm:
              self.decoder = nn.Sequential(
                  nn.Linear(encoding_size, intermediate_size), nn.BatchNorm1d(intermediate_size),
                  nn.ReLU(True), nn.Dropout(0.2),
                  nn.Linear(intermediate_size, output_size), nn.BatchNorm1d(output_size),
                  nn.Sigmoid())
          else:
              self.decoder = nn.Sequential(
                  nn.Linear(encoding_size, intermediate_size), nn.ReLU(True),
                  nn.Linear(intermediate_size, output_size), nn.Sigmoid())
  \<close>
\<close>

definition Decoder ::
  "('t, 'g, 'o) torch \<Rightarrow> nat \<Rightarrow> nat \<Rightarrow> nat \<Rightarrow> bool \<Rightarrow> 't \<Rightarrow> layer list \<times> 't" where
  "Decoder lib output_size intermediate_size encoding_size is_enable_bath_norm t =
     (let (l1, t1) = nn_Linear lib encoding_size intermediate_size t;
          (l2, t2) = nn_Linear lib intermediate_size output_size t1
      in if is_enable_bath_norm then
           ([l1, nn_BatchNorm1d intermediate_size, ReLU, Dropout 0.2,
             l2, nn_BatchNorm1d output_size, Sigmoid], t2)
         else ([l1, ReLU, l2, Sigmoid], t2))"

subsection \<open>The layers' forward functions\<close>

text \<open>\<^verbatim>\<open>F.linear\<close>: \<open>x W\<^sup>T + b\<close>, row by row.\<close>

definition dot :: "real list \<Rightarrow> real list \<Rightarrow> real" where
  "dot u v = sum_list (map2 (*) u v)"

definition linear_row :: "real list list \<Rightarrow> real list \<Rightarrow> real list \<Rightarrow> real list" where
  "linear_row W b r = map2 (\<lambda>w c. dot r w + c) W b"

text \<open>Batch statistics of one feature (a column of the batch).\<close>

definition column :: "tensor \<Rightarrow> nat \<Rightarrow> real list" where
  "column x c = map (\<lambda>r. r ! c) x"

definition mean :: "real list \<Rightarrow> real" where
  "mean xs = sum_list xs / real (length xs)"

definition var_biased :: "real list \<Rightarrow> real" where
  "var_biased xs = sum_list (map (\<lambda>v. (v - mean xs)\<^sup>2) xs) / real (length xs)"

definition var_unbiased :: "real list \<Rightarrow> real" where
  "var_unbiased xs = sum_list (map (\<lambda>v. (v - mean xs)\<^sup>2) xs) / (real (length xs) - 1)"

definition bn_eps :: real where
  "bn_eps = 1 / 100000"

definition bn_momentum :: real where
  "bn_momentum = 1 / 10"

text \<open>\<open>(x - mean) / sqrt (var + eps) * weight + bias\<close>, feature by feature.\<close>

definition normalize :: "real list \<Rightarrow> real list \<Rightarrow> real list \<Rightarrow> real list \<Rightarrow> real list \<Rightarrow> real list" where
  "normalize mu var gam bet r =
     map (\<lambda>(v, m, s, g, b). (v - m) / sqrt (s + bn_eps) * g + b)
       (zip r (zip mu (zip var (zip gam bet))))"

definition running_update :: "real list \<Rightarrow> real list \<Rightarrow> real list" where
  "running_update old new = map2 (\<lambda>r v. (1 - bn_momentum) * r + bn_momentum * v) old new"

text \<open>
  \<^verbatim>\<open>BatchNorm1d.forward\<close>. In training mode it first counts the batch, then refuses a
  batch of one row (\<^verbatim>\<open>ValueError\<close>: more than one value per channel is expected),
  then normalises with the statistics of the batch and moves the running statistics
  towards them (the running variance towards the unbiased one). In evaluation mode it
  normalises with the running statistics and changes nothing. A row of the wrong
  width is a \<^verbatim>\<open>RuntimeError\<close>. On a batch without rows the statistics of the batch
  are \<open>nan\<close> in PyTorch; here the running statistics are then left as they are (the
  loader never yields such a batch).
\<close>

definition batchnorm_forward ::
  "bool \<Rightarrow> nat \<Rightarrow> real list \<Rightarrow> real list \<Rightarrow> real list \<Rightarrow> real list \<Rightarrow> nat \<Rightarrow> tensor
     \<Rightarrow> (error + tensor) \<times> layer" where
  "batchnorm_forward training n gam bet rm rv k x =
     (if training then
        if length x = 1 then (Inl ValueError, BatchNorm1d n gam bet rm rv (Suc k))
        else if \<not> list_all (\<lambda>r. length r = n) x then
          (Inl RuntimeError, BatchNorm1d n gam bet rm rv (Suc k))
        else if x = [] then (Inr [], BatchNorm1d n gam bet rm rv (Suc k))
        else
          let cols = map (column x) [0..<n];
              mu = map mean cols;
              var = map var_biased cols
          in (Inr (map (normalize mu var gam bet) x),
              BatchNorm1d n gam bet (running_update rm mu)
                (running_update rv (map var_unbiased cols)) (Suc k))
      else if \<not> list_all (\<lambda>r. length r = n) x then
        (Inl RuntimeError, BatchNorm1d n gam bet rm rv k)
      else (Inr (map (normalize rm rv gam bet) x), BatchNorm1d n gam bet rm rv k))"

text \<open>
  \<^verbatim>\<open>Dropout(p)\<close> in training mode zeroes the entries the draw drops and scales the
  others by \<open>1 / (1 - p)\<close> (everything is zero when \<open>p = 1\<close>); in evaluation mode it
  is the identity.
\<close>

definition dropout_apply :: "real \<Rightarrow> (nat \<Rightarrow> nat \<Rightarrow> bool) \<Rightarrow> tensor \<Rightarrow> tensor" where
  "dropout_apply p keep x =
     map (\<lambda>(i, r). map (\<lambda>(j, v). if p \<noteq> 1 \<and> keep i j then v / (1 - p) else 0) (enumerate 0 r))
       (enumerate 0 x)"

definition sigmoid :: "real \<Rightarrow> real" where
  "sigmoid v = 1 / (1 + exp (- v))"

text \<open>
  One module applied to a batch: the result or the exception, the module as the call
  leaves it, and the generator state.
\<close>

fun layer_forward ::
  "('t, 'g, 'o) torch \<Rightarrow> bool \<Rightarrow> layer \<Rightarrow> tensor \<Rightarrow> 't \<Rightarrow> (error + tensor) \<times> layer \<times> 't" where
  "layer_forward lib training (Linear i out W b) x t =
     (if list_all (\<lambda>r. length r = i) x then (Inr (map (linear_row W b) x), Linear i out W b, t)
      else (Inl RuntimeError, Linear i out W b, t))"
| "layer_forward lib training (BatchNorm1d n gam bet rm rv k) x t =
     (case batchnorm_forward training n gam bet rm rv k x of (r, l) \<Rightarrow> (r, l, t))"
| "layer_forward lib training ReLU x t = (Inr (map (map (max 0)) x), ReLU, t)"
| "layer_forward lib training (Dropout p) x t =
     (if training then
        (case bernoulli lib t (1 - p) of (keep, t') \<Rightarrow> (Inr (dropout_apply p keep x), Dropout p, t'))
      else (Inr x, Dropout p, t))"
| "layer_forward lib training Sigmoid x t = (Inr (map (map sigmoid) x), Sigmoid, t)"

text \<open>\<^verbatim>\<open>nn.Sequential.forward\<close>: the modules in order, each fed the previous result.\<close>

fun seq_forward ::
  "('t, 'g, 'o) torch \<Rightarrow> bool \<Rightarrow> layer list \<Rightarrow> tensor \<Rightarrow> 't \<Rightarrow> (error + tensor) \<times> layer list \<times> 't" where
  "seq_forward lib training [] x t = (Inr x, [], t)"
| "seq_forward lib training (l # ls) x t =
     (case layer_forward lib training l x t of
        (Inl e, l', t') \<Rightarrow> (Inl e, l' # ls, t')
      | (Inr y, l', t') \<Rightarrow>
          (case seq_forward lib training ls y t' of (r, ls', t'') \<Rightarrow> (r, l' # ls', t'')))"

text \<open>
  What a module is called with: a NumPy array or a tensor. \<^verbatim>\<open>Encoder.forward\<close> and
  \<^verbatim>\<open>Decoder.forward\<close> hand their argument to the sequence, whose first module is an
  \<^verbatim>\<open>nn.Linear\<close> in every topology; its \<^verbatim>\<open>F.linear\<close> refuses an argument that is not
  a tensor (a \<^verbatim>\<open>TypeError\<close>; an \<^verbatim>\<open>AttributeError\<close> at the same place in early
  releases).
\<close>

datatype pyobj = NdArray tensor | Tensor tensor

definition module_forward ::
  "('t, 'g, 'o) torch \<Rightarrow> bool \<Rightarrow> layer list \<Rightarrow> pyobj \<Rightarrow> 't \<Rightarrow> (error + tensor) \<times> layer list \<times> 't" where
  "module_forward lib training net x t =
     (case x of
        NdArray _ \<Rightarrow> (Inl TypeError, net, t)
      | Tensor v \<Rightarrow> seq_forward lib training net v t)"

subsection \<open>The loss\<close>

text \<open>
  A Python float as \<^verbatim>\<open>loss.item()\<close> returns it: a real number, or \<open>nan\<close> (the mean
  over no elements).
\<close>

datatype pyfloat = Float real | NaN

text \<open>
  \<^verbatim>\<open>nn.MSELoss(reduction='mean')\<close>: the operands are broadcast to a common shape (a
  dimension of size one stretches; a \<^verbatim>\<open>RuntimeError\<close> when the shapes do not fit),
  then the squared differences are averaged.
\<close>

definition bdim :: "nat \<Rightarrow> nat \<Rightarrow> nat option" where
  "bdim a b = (if a = b then Some a else if a = 1 then Some b else if b = 1 then Some a else None)"

definition expand :: "nat \<Rightarrow> 'a list \<Rightarrow> 'a list" where
  "expand n xs = (case xs of [v] \<Rightarrow> replicate n v | _ \<Rightarrow> xs)"

definition mse_loss :: "tensor \<Rightarrow> tensor \<Rightarrow> error + pyfloat" where
  "mse_loss x y =
     (case (bdim (length x) (length y), bdim (width x) (width y)) of
        (Some n, Some f) \<Rightarrow>
          let x' = map (expand f) (expand n x);
              y' = map (expand f) (expand n y);
              d = concat (map2 (map2 (\<lambda>a b. (a - b)\<^sup>2)) x' y')
          in Inr (if d = [] then NaN else Float (sum_list d / real (length d)))
      | _ \<Rightarrow> Inl RuntimeError)"

section \<open>The class \<^verbatim>\<open>AutoEncoder\<close>\<close>

text \<open>
  The calls into PyTorch that change gradients or parameters, or run a network, are
  recorded in a list (\<open>calls\<close>), so that their order can be stated.
\<close>

datatype net = EncoderNet | DecoderNet

datatype event = ZeroGrad net | Forward net | Criterion | Backward | OptimizerStep net

text \<open>
  The fields of an \<^verbatim>\<open>AutoEncoder\<close>. Each network comes with its mode flag
  (\<^verbatim>\<open>training\<close>) and with the gradient accumulated on its parameters: \<open>None\<close> when
  cleared (PyTorch drops the buffers or fills them with zeros, depending on the
  release; the next backward pass stores its gradient either way). \<open>train\<close> is the
  array the data set wraps, \<open>rng\<close> PyTorch's global generator.
\<close>

record ('t, 'g, 'o) autoencoder =
  data :: tensor
  val_idxs :: "nat list"
  val :: tensor
  train :: tensor
  encoder :: "layer list"
  encoder_training :: bool
  encoder_grad :: "'g option"
  decoder :: "layer list"
  decoder_training :: bool
  decoder_grad :: "'g option"
  encoder_optimizer :: 'o
  decoder_optimizer :: 'o
  train_losses :: "pyfloat list"
  val_losses :: "pyfloat list"
  rng :: 't
  calls :: "event list"

definition note_call :: "event \<Rightarrow> ('t, 'g, 'o) autoencoder \<Rightarrow> ('t, 'g, 'o) autoencoder" where
  "note_call e s = s\<lparr>calls := calls s @ [e]\<rparr>"

text \<open>
  \<^verbatim>\<open>
  def __init__(self, data, validation_perc=0.2, lr=0.001,
               intermediate_size=1000, encoded_size=100, is_enable_bath_norm=True):
      torch.manual_seed(0)
      self.data = data
      self.val_idxs = get_cv_idxs(n=data.shape[0], val_pct=validation_perc)
      [(self.val, self.train)] = split_by_idx(self.val_idxs, data)
      self.dataset = AETrainingData(self.train)
      self.dataloader = DataLoader(self.dataset, batch_size=64, shuffle=True, num_workers=0)
      self.val = torch.from_numpy(self.val).type(torch.FloatTensor).cuda()
      size = data.shape[1]
      self.encoder = Encoder(size, intermediate_size, encoded_size, is_enable_bath_norm).cuda()
      self.decoder = Decoder(size, intermediate_size, encoded_size, is_enable_bath_norm).cuda()
      self.encoder_optimizer = optim.Adam(self.encoder.parameters(), lr=lr, weight_decay=1e-8)
      self.decoder_optimizer = optim.Adam(self.decoder.parameters(), lr=lr, weight_decay=1e-8)
      self.criterion = nn.MSELoss(reduction='mean')
      self.train_losses = []
      self.val_losses = []
  \<close>
  A new module is in training mode and has no gradient.
\<close>

definition AutoEncoder ::
  "('t, 'g, 'o) torch \<Rightarrow> 'h np_random \<Rightarrow> tensor \<Rightarrow> real \<Rightarrow> real \<Rightarrow> nat \<Rightarrow> nat \<Rightarrow> bool \<Rightarrow> 'h
     \<Rightarrow> (error + ('t, 'g, 'o) autoencoder) \<times> 'h" where
  "AutoEncoder lib np dat validation_perc lr intermediate_size encoded_size is_enable_bath_norm h =
     (let t0 = manual_seed lib 0 in
      case split_data np dat validation_perc h of
        (Inl e, h') \<Rightarrow> (Inl e, h')
      | (Inr (vidx, v, tr), h') \<Rightarrow>
          let size = width dat;
              (enc, t1) = Encoder lib size intermediate_size encoded_size is_enable_bath_norm t0;
              (dec, t2) = Decoder lib size intermediate_size encoded_size is_enable_bath_norm t1
          in (Inr \<lparr>data = dat, val_idxs = vidx, val = v, train = tr,
                   encoder = enc, encoder_training = True, encoder_grad = None,
                   decoder = dec, decoder_training = True, decoder_grad = None,
                   encoder_optimizer = adam lib enc lr (1 / 10 ^ 8),
                   decoder_optimizer = adam lib dec lr (1 / 10 ^ 8),
                   train_losses = [], val_losses = [], rng = t2, calls = []\<rparr>, h'))"

text \<open>
  \<^verbatim>\<open>
  def reset(self, train=True):
      if train:
          self.encoder.train(); self.decoder.train()
      else:
          self.encoder.eval(); self.decoder.eval()
  \<close>
\<close>

definition reset :: "bool \<Rightarrow> ('t, 'g, 'o) autoencoder \<Rightarrow> ('t, 'g, 'o) autoencoder" where
  "reset tr s = s\<lparr>encoder_training := tr, decoder_training := tr\<rparr>"

text \<open>
  The forward passes of the two networks as methods of the object: the network's
  buffers and the generator are left as the call leaves them, also when it raises.
\<close>

definition run_encoder ::
  "('t, 'g, 'o) torch \<Rightarrow> pyobj \<Rightarrow> ('t, 'g, 'o) autoencoder
     \<Rightarrow> (error + tensor) \<times> ('t, 'g, 'o) autoencoder" where
  "run_encoder lib x s =
     (case module_forward lib (encoder_training s) (encoder s) x (rng s) of
        (r, enc', t') \<Rightarrow> (r, note_call (Forward EncoderNet) (s\<lparr>encoder := enc', rng := t'\<rparr>)))"

definition run_decoder ::
  "('t, 'g, 'o) torch \<Rightarrow> pyobj \<Rightarrow> ('t, 'g, 'o) autoencoder
     \<Rightarrow> (error + tensor) \<times> ('t, 'g, 'o) autoencoder" where
  "run_decoder lib x s =
     (case module_forward lib (decoder_training s) (decoder s) x (rng s) of
        (r, dec', t') \<Rightarrow> (r, note_call (Forward DecoderNet) (s\<lparr>decoder := dec', rng := t'\<rparr>)))"






text \<open>
  \<^verbatim>\<open>
  def get_val_loss(self, input_tensor, target_tensor):
      self.reset(train=False)
      encoded = self.encoder(input_tensor)
      decoded = self.decoder(encoded)
      loss = self.criterion(decoded, target_tensor)
      return loss.item()
  \<close>
\<close>

definition get_val_loss ::
  "('t, 'g, 'o) torch \<Rightarrow> tensor \<Rightarrow> tensor \<Rightarrow> ('t, 'g, 'o) autoencoder
     \<Rightarrow> (error + pyfloat) \<times> ('t, 'g, 'o) autoencoder" where
  "get_val_loss lib input_tensor target_tensor s =
     (let s1 = reset False s
      in case run_encoder lib (Tensor input_tensor) s1 of
           (Inl e, s2) \<Rightarrow> (Inl e, s2)
         | (Inr encoded, s2) \<Rightarrow>
             (case run_decoder lib (Tensor encoded) s2 of
                (Inl e, s3) \<Rightarrow> (Inl e, s3)
              | (Inr decoded, s3) \<Rightarrow>
                  (case mse_loss decoded target_tensor of
                     Inl e \<Rightarrow> (Inl e, note_call Criterion s3)
                   | Inr loss \<Rightarrow> (Inr loss, note_call Criterion s3))))"

subsection \<open>The data loader and the training loop\<close>









subsection \<open>Encoding the data\<close>

text \<open>
  \<^verbatim>\<open>
  def get_encoded_representations(self):
      to_encode = torch.from_numpy(self.data).type(torch.FloatTensor).cuda()
      self.reset(train=False)
      # encodings = self.encoder(to_encode).cpu().data.numpy()
      encodings = self.encoder.forward(self.data)
      return encodings
  \<close>
  \<open>self.data\<close> is the NumPy array the object was built from; \<open>to_encode\<close>, the tensor
  made from it, is not used.
\<close>

definition get_encoded_representations ::
  "('t, 'g, 'o) torch \<Rightarrow> ('t, 'g, 'o) autoencoder \<Rightarrow> (error + tensor) \<times> ('t, 'g, 'o) autoencoder" where
  "get_encoded_representations lib s =
     (let to_encode = Tensor (data s);
          s1 = reset False s
      in run_encoder lib (NdArray (data s1)) s1)"

subsection \<open>Checkpoints\<close>

text \<open>
  A state dictionary maps each parameter's and buffer's name to its value. The names
  are \<open>attribute.index.field\<close>: the \<^verbatim>\<open>nn.Sequential\<close> is the attribute
  \<^verbatim>\<open>encoder\<close> of an \<^verbatim>\<open>Encoder\<close> and \<^verbatim>\<open>decoder\<close> of a \<^verbatim>\<open>Decoder\<close>, the index is
  the module's position in it.
\<close>

datatype entry = Matrix "real list list" | Vector "real list" | Counter nat

type_synonym state_dict = "(string \<times> entry) list"

definition digit_char :: "nat \<Rightarrow> char" where
  "digit_char d = ''0123456789'' ! (d mod 10)"

function str_nat :: "nat \<Rightarrow> string" where
  "str_nat n = (if n < 10 then [digit_char n] else str_nat (n div 10) @ [digit_char (n mod 10)])"
  by pat_completeness auto
termination
  by (relation "measure id") auto

fun layer_state :: "layer \<Rightarrow> (string \<times> entry) list" where
  "layer_state (Linear i out W b) = [(''weight'', Matrix W), (''bias'', Vector b)]"
| "layer_state (BatchNorm1d n gam bet rm rv k) =
     [(''weight'', Vector gam), (''bias'', Vector bet), (''running_mean'', Vector rm),
      (''running_var'', Vector rv), (''num_batches_tracked'', Counter k)]"
| "layer_state ReLU = []"
| "layer_state (Dropout p) = []"
| "layer_state Sigmoid = []"

definition module_key :: "string \<Rightarrow> nat \<Rightarrow> string \<Rightarrow> string" where
  "module_key attr k field = attr @ ''.'' @ str_nat k @ ''.'' @ field"

definition get_state_dict :: "string \<Rightarrow> layer list \<Rightarrow> state_dict" where
  "get_state_dict attr net_layers =
     concat (map (\<lambda>(k, l). map (\<lambda>(field, e). (module_key attr k field, e)) (layer_state l))
               (enumerate 0 net_layers))"

text \<open>
  \<^verbatim>\<open>load_state_dict(d, strict=False)\<close>: every name of the module that \<open>d\<close> has is
  copied from \<open>d\<close> when the shapes agree; a name \<open>d\<close> lacks keeps its value, a name
  only \<open>d\<close> has is ignored. A value of another shape is not copied, and the call
  raises \<^verbatim>\<open>RuntimeError\<close> once the other names are done.
\<close>

fun same_shape :: "entry \<Rightarrow> entry \<Rightarrow> bool" where
  "same_shape (Matrix a) (Matrix b) = (map length a = map length b)"
| "same_shape (Vector a) (Vector b) = (length a = length b)"
| "same_shape (Counter j) (Counter k) = True"
| "same_shape _ _ = False"

definition load_entry :: "state_dict \<Rightarrow> string \<Rightarrow> entry \<Rightarrow> entry \<times> bool" where
  "load_entry d key cur =
     (case map_of d key of
        None \<Rightarrow> (cur, False)
      | Some e \<Rightarrow> if same_shape cur e then (e, False) else (cur, True))"

fun load_layer :: "state_dict \<Rightarrow> (string \<Rightarrow> string) \<Rightarrow> layer \<Rightarrow> layer \<times> bool" where
  "load_layer d key (Linear i out W b) =
     (case (load_entry d (key ''weight'') (Matrix W), load_entry d (key ''bias'') (Vector b)) of
        ((Matrix W', m1), (Vector b', m2)) \<Rightarrow> (Linear i out W' b', m1 \<or> m2)
      | _ \<Rightarrow> (Linear i out W b, True))"
| "load_layer d key (BatchNorm1d n gam bet rm rv k) =
     (case (load_entry d (key ''weight'') (Vector gam), load_entry d (key ''bias'') (Vector bet),
            load_entry d (key ''running_mean'') (Vector rm),
            load_entry d (key ''running_var'') (Vector rv),
            load_entry d (key ''num_batches_tracked'') (Counter k)) of
        ((Vector gam', m1), (Vector bet', m2), (Vector rm', m3), (Vector rv', m4), (Counter k', m5)) \<Rightarrow>
          (BatchNorm1d n gam' bet' rm' rv' k', m1 \<or> m2 \<or> m3 \<or> m4 \<or> m5)
      | _ \<Rightarrow> (BatchNorm1d n gam bet rm rv k, True))"
| "load_layer d key l = (l, False)"

definition load_state_dict :: "string \<Rightarrow> layer list \<Rightarrow> state_dict \<Rightarrow> (error + unit) \<times> layer list" where
  "load_state_dict attr net_layers d =
     (let rs = map (\<lambda>(k, l). load_layer d (module_key attr k) l) (enumerate 0 net_layers)
      in (if list_ex snd rs then Inl RuntimeError else Inr (), map fst rs))"

text \<open>
  The files: \<^verbatim>\<open>torch.save\<close> writes a state dictionary under a path and needs the
  path's directory; \<^verbatim>\<open>torch.load\<close> reads it back and needs the file.
\<close>

record filesystem =
  directories :: "string set"
  files :: "string \<rightharpoonup> state_dict"

definition torch_save :: "state_dict \<Rightarrow> string \<Rightarrow> string \<Rightarrow> filesystem \<Rightarrow> (error + unit) \<times> filesystem" where
  "torch_save d dir name fs =
     (if dir \<in> directories fs then
        (Inr (), fs\<lparr>files := (files fs)(dir @ ''/'' @ name \<mapsto> d)\<rparr>)
      else (Inl FileNotFoundError, fs))"

definition torch_load :: "string \<Rightarrow> string \<Rightarrow> filesystem \<Rightarrow> error + state_dict" where
  "torch_load dir name fs =
     (case files fs (dir @ ''/'' @ name) of
        None \<Rightarrow> Inl FileNotFoundError
      | Some d \<Rightarrow> Inr d)"

text \<open>
  \<^verbatim>\<open>
  def save_encoder(self):
      torch.save(self.encoder.state_dict(), 'checkpoint/encoder_checkpoint.pt')
  def save_decoder(self):
      torch.save(self.decoder.state_dict(), 'checkpoint/decoder_checkpoint.pt')
  def load_encoder(self):
      self.encoder.load_state_dict(torch.load('checkpoint/encoder_checkpoint.pt'), strict=False)
  def load_decoder(self):
      self.encoder.load_state_dict(torch.load('checkpoint/decoder_checkpoint.pt'), strict=False)
  \<close>
\<close>

definition save_encoder :: "('t, 'g, 'o) autoencoder \<Rightarrow> filesystem \<Rightarrow> (error + unit) \<times> filesystem" where
  "save_encoder s fs =
     torch_save (get_state_dict ''encoder'' (encoder s)) ''checkpoint'' ''encoder_checkpoint.pt'' fs"

definition save_decoder :: "('t, 'g, 'o) autoencoder \<Rightarrow> filesystem \<Rightarrow> (error + unit) \<times> filesystem" where
  "save_decoder s fs =
     torch_save (get_state_dict ''decoder'' (decoder s)) ''checkpoint'' ''decoder_checkpoint.pt'' fs"

definition load_encoder ::
  "filesystem \<Rightarrow> ('t, 'g, 'o) autoencoder \<Rightarrow> (error + unit) \<times> ('t, 'g, 'o) autoencoder" where
  "load_encoder fs s =
     (case torch_load ''checkpoint'' ''encoder_checkpoint.pt'' fs of
        Inl e \<Rightarrow> (Inl e, s)
      | Inr d \<Rightarrow>
          (case load_state_dict ''encoder'' (encoder s) d of
             (r, enc') \<Rightarrow> (r, s\<lparr>encoder := enc'\<rparr>)))"

definition load_decoder ::
  "filesystem \<Rightarrow> ('t, 'g, 'o) autoencoder \<Rightarrow> (error + unit) \<times> ('t, 'g, 'o) autoencoder" where
  "load_decoder fs s =
     (case torch_load ''checkpoint'' ''decoder_checkpoint.pt'' fs of
        Inl e \<Rightarrow> (Inl e, s)
      | Inr d \<Rightarrow>
          (case load_state_dict ''encoder'' (encoder s) d of
             (r, enc') \<Rightarrow> (r, s\<lparr>encoder := enc'\<rparr>)))"

section \<open>Shapes\<close>

text \<open>
  A module is well-formed when its parameters and buffers have the sizes its
  constructor gave them (and a running variance is not negative, a dropout rate is a
  probability). Its topology is the module without the values of its parameters and
  buffers: training changes the values, never the topology.
\<close>

fun layer_ok :: "layer \<Rightarrow> bool" where
  "layer_ok (Linear i out W b) =
     (length W = out \<and> list_all (\<lambda>w. length w = i) W \<and> length b = out)"
| "layer_ok (BatchNorm1d n gam bet rm rv k) =
     (length gam = n \<and> length bet = n \<and> length rm = n \<and> length rv = n \<and> list_all (\<lambda>v. 0 \<le> v) rv)"
| "layer_ok ReLU = True"
| "layer_ok (Dropout p) = (0 \<le> p \<and> p \<le> 1)"
| "layer_ok Sigmoid = True"

fun topology :: "layer \<Rightarrow> layer" where
  "topology (Linear i out W b) = Linear i out [] []"
| "topology (BatchNorm1d n gam bet rm rv k) = BatchNorm1d n [] [] [] [] 0"
| "topology ReLU = ReLU"
| "topology (Dropout p) = Dropout p"
| "topology Sigmoid = Sigmoid"

text \<open>
  \<open>built_like net net0\<close>: the network \<open>net\<close> is well-formed and has the topology of
  \<open>net0\<close> (a network as a constructor returns it).
\<close>

definition built_like :: "layer list \<Rightarrow> layer list \<Rightarrow> bool" where
  "built_like net_layers net0 =
     (list_all layer_ok net_layers \<and> map topology net_layers = map topology net0)"

text \<open>
  The width a module gives a batch of \<open>rows\<close> rows of width \<open>c\<close>, or the exception it
  raises: the checks of the forward functions, on the shapes alone.
\<close>

fun layer_width :: "bool \<Rightarrow> nat \<Rightarrow> layer \<Rightarrow> nat \<Rightarrow> error + nat" where
  "layer_width training rows (Linear i out W b) c = (if c = i then Inr out else Inl RuntimeError)"
| "layer_width training rows (BatchNorm1d n gam bet rm rv k) c =
     (if training \<and> rows = 1 then Inl ValueError
      else if c = n then Inr c else Inl RuntimeError)"
| "layer_width training rows ReLU c = Inr c"
| "layer_width training rows (Dropout p) c = Inr c"
| "layer_width training rows Sigmoid c = Inr c"

fun seq_width :: "bool \<Rightarrow> nat \<Rightarrow> layer list \<Rightarrow> nat \<Rightarrow> error + nat" where
  "seq_width training rows [] c = Inr c"
| "seq_width training rows (l # ls) c =
     (case layer_width training rows l c of
        Inl e \<Rightarrow> Inl e
      | Inr c' \<Rightarrow> seq_width training rows ls c')"

text \<open>
  The loss of one pass through both networks: what \<^verbatim>\<open>train_step\<close> and
  \<^verbatim>\<open>get_val_loss\<close> both compute, each in the modes it finds or sets.
\<close>

definition forward_loss ::
  "('t, 'g, 'o) torch \<Rightarrow> layer list \<times> bool \<Rightarrow> layer list \<times> bool \<Rightarrow> 't \<Rightarrow> tensor \<Rightarrow> tensor
     \<Rightarrow> error + pyfloat" where
  "forward_loss lib enc dec t x y =
     (case seq_forward lib (snd enc) (fst enc) x t of
        (Inl e, enc', t') \<Rightarrow> Inl e
      | (Inr h, enc', t') \<Rightarrow>
          (case seq_forward lib (snd dec) (fst dec) h t' of
             (Inl e, dec', t'') \<Rightarrow> Inl e
           | (Inr d, dec', t'') \<Rightarrow> mse_loss d y))"


section \<open>The class \<^verbatim>\<open>AETrainingData\<close>, with the arrays' storage\<close>

text \<open>
  NumPy arrays and tensors are windows on storage that several of them may share. A
  buffer is a block of storage with its element type; the store is the list of the
  buffers allocated so far, a buffer's address its position in the list.
\<close>

datatype dtype = Float32 | Float64 | Int64



text \<open>A one-dimensional array or tensor: \<open>size\<close> elements of buffer \<open>base\<close> from \<open>offset\<close> on.\<close>

record view =
  base :: nat
  offset :: nat
  size :: nat











section \<open>The text embeddings: \<^verbatim>\<open>embedding_helper\<close>\<close>

text \<open>
  The sentence handed to the helper is a string or a list of strings; a method
  returns an array or \<^verbatim>\<open>None\<close>.
\<close>

datatype sentence = Str string | Strs "string list"

datatype pyresult = PyNone | Array tensor

text \<open>
  The collaborators: the BERT tokenizer and model (\<open>bert_layers\<close>: the encoded layers
  for the marked text, each a row per token, for the batch of one),
  \<^verbatim>\<open>TfidfVectorizer.fit_transform\<close>, NLTK's tokenizer, stop words, lemmatizer and
  stemmer, and \<^verbatim>\<open>str.lower\<close>.
\<close>

record nlp =
  bert_layers :: "string \<Rightarrow> tensor list"
  fit_transform :: "sentence \<Rightarrow> error + tensor"
  tokenize :: "string \<Rightarrow> string list"
  stopwords :: "string list"
  lemmatize :: "string \<Rightarrow> string"
  stem :: "string \<Rightarrow> string"
  lower :: "string \<Rightarrow> string"

text \<open>
  \<^verbatim>\<open>
  def get_tf_idf_embedding(sentence):
      tfidf = TfidfVectorizer(ngram_range=(1, 1), min_df=0.0001, stop_words='english')
      tfidf_matrix = tfidf.fit_transform(sentence)
  \<close>
  The function ends without a \<^verbatim>\<open>return\<close>: its value is \<^verbatim>\<open>None\<close>.
\<close>

definition get_tf_idf_embedding :: "nlp \<Rightarrow> sentence \<Rightarrow> error + pyresult" where
  "get_tf_idf_embedding lib s =
     (case fit_transform lib s of
        Inl e \<Rightarrow> Inl e
      | Inr tfidf_matrix \<Rightarrow> Inr PyNone)"

text \<open>
  \<^verbatim>\<open>
  def get_bert_embedding(sentence):
      marked_text = "[CLS] " + sentence + " [SEP]"
      ...
      with torch.no_grad():
          encoded_layers, _ = model(tokens_tensor, segments_tensors)
      print("Number of hidden units:", len(encoded_layers[0][0][0]))
      ...
      sentence_embedding = torch.mean(encoded_layers[11], 1)
      return sentence_embedding.numpy()
  \<close>
  Concatenating a string and a list is a \<^verbatim>\<open>TypeError\<close>. The result is the mean over
  the tokens of the twelfth layer, one row.
\<close>

definition get_bert_embedding :: "nlp \<Rightarrow> sentence \<Rightarrow> error + pyresult" where
  "get_bert_embedding lib s =
     (case s of
        Strs _ \<Rightarrow> Inl TypeError
      | Str text \<Rightarrow>
          let encoded_layers = bert_layers lib (''[CLS] '' @ text @ '' [SEP]'')
          in if length encoded_layers < 12 \<or> encoded_layers ! 0 = [] then Inl IndexError
             else let top = encoded_layers ! 11
                  in Inr (Array [map (\<lambda>j. mean (column top j)) [0..<width top]]))"

text \<open>\<^verbatim>\<open>s.replace('sci-fi', 'scifi')\<close>.\<close>

function replace_sci_fi :: "string \<Rightarrow> string" where
  "replace_sci_fi s =
     (if s = [] then []
      else if take 6 s = ''sci-fi'' then ''scifi'' @ replace_sci_fi (drop 6 s)
      else hd s # replace_sci_fi (tl s))"
  by pat_completeness auto
termination
  by (relation "measure length") auto

text \<open>\<^verbatim>\<open>len(token) == 5 and re.match(r'([1-3][0-9]{3}[s]{1})', token) is not None\<close>.\<close>

definition is_digit :: "char \<Rightarrow> bool" where
  "is_digit c = (c \<in> set ''0123456789'')"

definition is_decade :: "string \<Rightarrow> bool" where
  "is_decade token =
     (case token of
        [a, b, c, d, e] \<Rightarrow> a \<in> set ''123'' \<and> is_digit b \<and> is_digit c \<and> is_digit d \<and> e = CHR ''s''
      | _ \<Rightarrow> False)"

text \<open>\<^verbatim>\<open>list(dictionary.keys()).index(token)\<close>: a \<^verbatim>\<open>ValueError\<close> when the token is no key.\<close>

fun list_index :: "'a list \<Rightarrow> 'a \<Rightarrow> nat option" where
  "list_index [] a = None"
| "list_index (k # ks) a = (if k = a then Some 0 else map_option Suc (list_index ks a))"

text \<open>
  \<^verbatim>\<open>
  def get_bow_embedding(sentence, dictionary):
      ...
      item_infomation_matrix = numpy.zeros((len(dictionary), 1))
      stop_words = set(stopwords.words('english'))
      for word in sentence:
          tokens = tokenizer.tokenize(str(word).lower().replace('sci-fi', 'scifi'))
          filtered_token = [w for w in tokens if w not in stop_words]
          for token in filtered_token:
              if len(token) == 5 and re.match(r'([1-3][0-9]{3}[s]{1})', token) is not None:
                  item_infomation_matrix[list(dictionary.keys()).index(token)] = 1
              else:
                  item_infomation_matrix[list(dictionary.keys()).index(
                      stemmer.stem(lemmatizer.lemmatize(token.lower())))] = 1
      return item_infomation_matrix.T
  \<close>
  The dictionary is used through the list of its keys only. Iterating over a string
  yields its characters.
\<close>

definition words_of :: "sentence \<Rightarrow> string list" where
  "words_of s = (case s of Str text \<Rightarrow> map (\<lambda>c. [c]) text | Strs ws \<Rightarrow> ws)"

definition bow_tokens :: "nlp \<Rightarrow> sentence \<Rightarrow> string list" where
  "bow_tokens lib s =
     concat (map (\<lambda>word. filter (\<lambda>w. w \<notin> set (stopwords lib))
                             (tokenize lib (replace_sci_fi (lower lib word))))
               (words_of s))"

definition bow_key :: "nlp \<Rightarrow> string \<Rightarrow> string" where
  "bow_key lib token =
     (if is_decade token then token else stem lib (lemmatize lib (lower lib token)))"

fun mark_tokens :: "nlp \<Rightarrow> string list \<Rightarrow> string list \<Rightarrow> real list \<Rightarrow> error + real list" where
  "mark_tokens lib keys [] m = Inr m"
| "mark_tokens lib keys (token # rest) m =
     (case list_index keys (bow_key lib token) of
        None \<Rightarrow> Inl ValueError
      | Some k \<Rightarrow> mark_tokens lib keys rest (m[k := 1]))"

definition get_bow_embedding :: "nlp \<Rightarrow> sentence \<Rightarrow> string list \<Rightarrow> error + pyresult" where
  "get_bow_embedding lib s keys =
     (case mark_tokens lib keys (bow_tokens lib s) (replicate (length keys) 0) of
        Inl e \<Rightarrow> Inl e
      | Inr m \<Rightarrow> Inr (Array [m]))"

text \<open>
  \<^verbatim>\<open>
  def get_embedding(self):
      if self.model == 'bert':
          return get_bert_embedding(self.sentence)
      if self.model == 'bow':
          return get_bow_embedding(self.sentence, self.dictionary)
      if self.model == 'tf-idf':
          return get_tf_idf_embedding(self.sentence)
  \<close>
  With any other selector the method ends without a \<^verbatim>\<open>return\<close>.
\<close>

definition get_embedding :: "nlp \<Rightarrow> sentence \<Rightarrow> string \<Rightarrow> string list \<Rightarrow> error + pyresult" where
  "get_embedding lib s model keys =
     (if model = ''bert'' then get_bert_embedding lib s
      else if model = ''bow'' then get_bow_embedding lib s keys
      else if model = ''tf-idf'' then get_tf_idf_embedding lib s
      else Inr PyNone)"

section \<open>Concrete libraries and inputs for the worked instances\<close>

text \<open>
  A generator for NumPy whose state is a counter: seeding sets the counter to the
  seed, a permutation of \<open>n\<close> is \<open>0, \<dots>, n - 1\<close> in reverse and advances the counter.
\<close>

definition np0 :: "nat np_random" where
  "np0 = \<lparr>np_seed = (\<lambda>s. s), np_permutation = (\<lambda>g n. (rev [0..<n], Suc g))\<rparr>"

text \<open>
  A PyTorch whose generator state is a counter: every draw advances it; all initial
  weights are half the bound, dropout keeps the entries at which row, column and
  counter add up to an even number, the loader visits the samples in reverse. The
  gradients are numbers, and an optimizer counts its steps and leaves the network as
  it is.
\<close>

definition lib0 :: "(nat, nat, nat) torch" where
  "lib0 = \<lparr>manual_seed = (\<lambda>s. nat s),
           uniform = (\<lambda>t b. (\<lambda>r c. b / 2, Suc t)),
           bernoulli = (\<lambda>t q. (\<lambda>i j. even (i + j + t), Suc t)),
           randperm = (\<lambda>t n. (rev [0..<n], Suc t)),
           backward = (\<lambda>e d t x y. (1, 2)),
           accumulate = (+),
           adam = (\<lambda>ls lr wd. 0),
           adam_step = (\<lambda>k ls g. (ls, Suc k))\<rparr>"

text \<open>
  An object over three rows of two features: the last row held out for validation,
  networks of sizes 2, 3 and 1 with batch normalisation, in training mode, with
  gradients left over from an earlier step.
\<close>

definition ae0 :: "(nat, nat, nat) autoencoder" where
  "ae0 = \<lparr>data = [[0, 1], [1, 0], [1, 1]], val_idxs = [2], val = [[1, 1]], train = [[0, 1], [1, 0]],
           encoder = fst (Encoder lib0 2 3 1 True 0), encoder_training = True, encoder_grad = Some 5,
           decoder = fst (Decoder lib0 2 3 1 True 2), decoder_training = True, decoder_grad = Some 6,
           encoder_optimizer = 0, decoder_optimizer = 0,
           train_losses = [], val_losses = [], rng = 4, calls = []\<rparr>"

text \<open>
  Two encoders and two decoders of sizes 1, 1 and 1 without batch normalisation that
  differ in one weight, an object holding the first of each, and a file system with
  the directory \<^verbatim>\<open>checkpoint\<close> and no file.
\<close>

definition enc_a :: "layer list" where
  "enc_a = [Linear 1 1 [[3]] [0], ReLU, Linear 1 1 [[1]] [0], ReLU]"

definition enc_b :: "layer list" where
  "enc_b = [Linear 1 1 [[4]] [0], ReLU, Linear 1 1 [[1]] [0], ReLU]"

definition dec_a :: "layer list" where
  "dec_a = [Linear 1 1 [[1]] [0], ReLU, Linear 1 1 [[1]] [0], Sigmoid]"

definition dec_b :: "layer list" where
  "dec_b = [Linear 1 1 [[2]] [0], ReLU, Linear 1 1 [[1]] [0], Sigmoid]"

definition ae_a :: "(nat, nat, nat) autoencoder" where
  "ae_a = \<lparr>data = [[0], [1]], val_idxs = [], val = [], train = [[0], [1]],
            encoder = enc_a, encoder_training = True, encoder_grad = None,
            decoder = dec_a, decoder_training = True, decoder_grad = None,
            encoder_optimizer = 0, decoder_optimizer = 0,
            train_losses = [], val_losses = [], rng = 0, calls = []\<rparr>"

definition fs0 :: filesystem where
  "fs0 = \<lparr>directories = {''checkpoint''}, files = Map.empty\<rparr>"




chapter \<open>Properties\<close>

section \<open>The split\<close>











text \<open>
  C8. The split is deterministic: \<^verbatim>\<open>get_cv_idxs\<close> seeds the generator before it draws,
  so for the same row count, fold, fraction and seed it returns the same validation
  indices whatever state the generator was in before the call; and two constructions of
  the object from the same matrix and fraction get the same validation indices, the same
  validation rows and the same training rows.
\<close>

theorem split_deterministic:
  "fst (get_cv_idxs np n cv_idx val_pct seed g1) = fst (get_cv_idxs np n cv_idx val_pct seed g2) \<and>
   fst (split_data np dat validation_perc g1) = fst (split_data np dat validation_perc g2)"
proof -
  have a: "\<And>n cv_idx val_pct seed. fst (get_cv_idxs np n cv_idx val_pct seed g1) = fst (get_cv_idxs np n cv_idx val_pct seed g2)"
    by (simp add: get_cv_idxs_def Let_def split: prod.splits)
  have "fst (split_data np dat validation_perc g1) = fst (split_data np dat validation_perc g2)"
    using a[of "length dat" 0 validation_perc 0]
    by (auto simp: split_data_def split: prod.splits sum.splits list.splits)
  with a show ?thesis by simp
qed

text \<open>Two runs for 100 rows, fraction 0.2 and seed 0, from different generator states.\<close>

theorem split_deterministic_witness:
  "fst (get_cv_idxs np0 100 0 0.2 0 5) = fst (get_cv_idxs np0 100 0 0.2 0 17) \<and>
   fst (split_data np0 [10, 11, 12, 13, 14 :: nat] 0.2 5) = fst (split_data np0 [10, 11, 12, 13, 14] 0.2 17)"
  by (rule split_deterministic)

section \<open>The forward pass\<close>

lemma layer_forward_eval:
  "layer_forward lib False l x t = (r, l', t') \<Longrightarrow> l' = l \<and> t' = t"
  by (cases l) (auto simp: batchnorm_forward_def split: if_splits)

lemma seq_forward_eval:
  "seq_forward lib False ls x t = (r, ls', t') \<Longrightarrow> ls' = ls \<and> t' = t"
proof (induction ls arbitrary: x t r ls' t')
  case Nil
  then show ?case by simp
next
  case (Cons l ls)
  obtain r1 l1 t1 where lf: "layer_forward lib False l x t = (r1, l1, t1)"
    by (cases "layer_forward lib False l x t") auto
  from layer_forward_eval[OF lf] have e1: "l1 = l" "t1 = t" by simp_all
  show ?case
  proof (cases r1)
    case (Inl e)
    with Cons.prems lf e1 show ?thesis by simp
  next
    case (Inr y)
    obtain r2 ls2 t2 where sf: "seq_forward lib False ls y t1 = (r2, ls2, t2)"
      by (cases "seq_forward lib False ls y t1") auto
    from Cons.IH[OF sf] have "ls2 = ls" "t2 = t1" by auto
    with Cons.prems lf e1 Inr sf show ?thesis by simp
  qed
qed

lemma layer_forward_empty:
  "fst (layer_forward lib tr l [] t) = Inr []"
  by (cases l) (auto simp: batchnorm_forward_def dropout_apply_def enumerate_eq_zip split: prod.splits)

lemma seq_forward_empty:
  "fst (seq_forward lib tr ls [] t) = Inr []"
proof (induction ls arbitrary: t)
  case Nil
  then show ?case by simp
next
  case (Cons l ls)
  obtain l1 t1 where lf: "layer_forward lib tr l [] t = (Inr [], l1, t1)"
    using layer_forward_empty[of lib tr l t] by (cases "layer_forward lib tr l [] t") auto
  obtain r2 ls2 t2 where sf: "seq_forward lib tr ls [] t1 = (r2, ls2, t2)"
    by (cases "seq_forward lib tr ls [] t1") auto
  with Cons.IH[of t1] have "r2 = Inr []" by simp
  with lf sf show ?case by simp
qed

lemma length_linear_row:
  "length W = out \<Longrightarrow> length b = out \<Longrightarrow> length (linear_row W b r) = out"
  by (simp add: linear_row_def)

lemma length_normalize:
  "length r = n \<Longrightarrow> length mu = n \<Longrightarrow> length var = n \<Longrightarrow> length gam = n \<Longrightarrow> length bet = n
   \<Longrightarrow> length (normalize mu var gam bet r) = n"
  by (simp add: normalize_def)

lemma dropout_apply_shape:
  "length (dropout_apply p keep x) = length x \<and>
   (list_all (\<lambda>r. length r = c) x \<longrightarrow> list_all (\<lambda>r. length r = c) (dropout_apply p keep x))"
  by (auto simp: dropout_apply_def list_all_iff enumerate_eq_zip set_zip)

lemma width_check:
  "x \<noteq> [] \<Longrightarrow> list_all (\<lambda>r. length r = c) x \<Longrightarrow> list_all (\<lambda>r. length r = i) x = (c = i)"
  by (cases x) (auto simp: list_all_iff)

lemma layer_forward_shape:
  assumes "x \<noteq> []" and "list_all (\<lambda>r. length r = c) x" and "layer_ok l"
  shows "case layer_width tr (length x) l c of
           Inl e \<Rightarrow> fst (layer_forward lib tr l x t) = Inl e
         | Inr c' \<Rightarrow> \<exists>y. fst (layer_forward lib tr l x t) = Inr y \<and> length y = length x \<and>
                        list_all (\<lambda>r. length r = c') y"
proof (cases l)
  case (Linear i out W b)
  with assms show ?thesis
    by (auto simp: width_check list_all_iff length_linear_row)
next
  case (BatchNorm1d n gam bet rm rv k)
  with assms show ?thesis
    by (auto simp: width_check batchnorm_forward_def Let_def list_all_iff length_normalize)
next
  case ReLU
  with assms show ?thesis by (auto simp: list_all_iff)
next
  case (Dropout p)
  with assms show ?thesis
    using dropout_apply_shape[of p _ x c]
    by (auto split: prod.splits)
next
  case Sigmoid
  with assms show ?thesis by (auto simp: list_all_iff)
qed

lemma seq_forward_shape:
  assumes "x \<noteq> []" and "list_all (\<lambda>r. length r = c) x" and "list_all layer_ok ls"
  shows "case seq_width tr (length x) ls c of
           Inl e \<Rightarrow> fst (seq_forward lib tr ls x t) = Inl e
         | Inr c' \<Rightarrow> \<exists>y. fst (seq_forward lib tr ls x t) = Inr y \<and> length y = length x \<and>
                        list_all (\<lambda>r. length r = c') y"
  using assms
proof (induction ls arbitrary: x c t)
  case Nil
  then show ?case by simp
next
  case (Cons l ls)
  have ok: "layer_ok l" "list_all layer_ok ls" using Cons.prems by auto
  note step = layer_forward_shape[OF Cons.prems(1,2) ok(1), where tr=tr and lib=lib and t=t]
  obtain r1 l1 t1 where lf: "layer_forward lib tr l x t = (r1, l1, t1)"
    by (cases "layer_forward lib tr l x t") auto
  show ?case
  proof (cases "layer_width tr (length x) l c")
    case (Inl e)
    with step lf show ?thesis by simp
  next
    case (Inr c1)
    with step lf obtain y where y: "r1 = Inr y" "length y = length x" "list_all (\<lambda>r. length r = c1) y"
      by auto
    then have yne: "y \<noteq> []" using Cons.prems(1) by auto
    obtain r2 ls2 t2 where sf: "seq_forward lib tr ls y t1 = (r2, ls2, t2)"
      by (cases "seq_forward lib tr ls y t1") auto
    from Cons.IH[OF yne y(3) ok(2), where t=t1] sf y(2) Inr lf y(1)
    show ?thesis by (auto split: sum.splits)
  qed
qed

lemma layer_width_topology: "layer_width tr n (topology l) c = layer_width tr n l c"
  by (cases l) auto

lemma seq_width_topology: "seq_width tr n (map topology ls) c = seq_width tr n ls c"
  by (induction ls arbitrary: c) (auto simp: layer_width_topology split: sum.splits)

lemma sigmoid_range: "0 < sigmoid v \<and> sigmoid v < 1"
proof -
  have "0 < exp (- v)" by simp
  then show ?thesis by (simp add: sigmoid_def add_pos_pos)
qed

lemma seq_forward_sigmoid:
  assumes "ls \<noteq> []" and "last ls = Sigmoid" and "fst (seq_forward lib tr ls x t) = Inr y"
  shows "\<forall>r\<in>set y. \<forall>v\<in>set r. 0 < v \<and> v < 1"
  using assms
proof (induction ls arbitrary: x t y)
  case Nil
  then show ?case by simp
next
  case (Cons l ls)
  show ?case
  proof (cases "ls = []")
    case True
    with Cons.prems have "y = map (map sigmoid) x" by auto
    then show ?thesis using sigmoid_range by auto
  next
    case False
    with Cons.prems have la: "last ls = Sigmoid" by simp
    obtain r1 l1 t1 where lf: "layer_forward lib tr l x t = (r1, l1, t1)"
      by (cases "layer_forward lib tr l x t") auto
    with Cons.prems(3) obtain z where z: "r1 = Inr z" by (cases r1) auto
    obtain r2 ls2 t2 where sf: "seq_forward lib tr ls z t1 = (r2, ls2, t2)"
      by (cases "seq_forward lib tr ls z t1") auto
    with lf z Cons.prems(3) have "fst (seq_forward lib tr ls z t1) = Inr y" by simp
    from Cons.IH[OF False la this] show ?thesis .
  qed
qed

lemma Encoder_width:
  "seq_width tr n (map topology (fst (Encoder lib F H E bn t0))) F =
     (if tr \<and> bn \<and> n = 1 then Inl ValueError else Inr E)"
  by (auto simp: Encoder_def nn_Linear_def nn_BatchNorm1d_def Let_def split: prod.splits)

lemma Decoder_width:
  "seq_width tr n (map topology (fst (Decoder lib F H E bn t0))) E =
     (if tr \<and> bn \<and> n = 1 then Inl ValueError else Inr F)"
  by (auto simp: Decoder_def nn_Linear_def nn_BatchNorm1d_def Let_def split: prod.splits)

lemma Decoder_last:
  "fst (Decoder lib F H E bn t0) \<noteq> [] \<and> last (map topology (fst (Decoder lib F H E bn t0))) = Sigmoid"
  by (auto simp: Decoder_def nn_Linear_def nn_BatchNorm1d_def Let_def split: prod.splits)

lemma topology_Sigmoid: "topology l = Sigmoid \<Longrightarrow> l = Sigmoid"
  by (cases l) auto

lemma net_forward:
  assumes ok: "list_all layer_ok ls" and x: "list_all (\<lambda>r. length r = c) x"
    and w: "x \<noteq> [] \<Longrightarrow> seq_width tr (length x) ls c = Inr c'"
  shows "\<exists>y ls' t'. seq_forward lib tr ls x t = (Inr y, ls', t') \<and> length y = length x \<and>
           list_all (\<lambda>r. length r = c') y"
proof (cases "x = []")
  case True
  obtain r ls' t' where sf: "seq_forward lib tr ls x t = (r, ls', t')"
    by (cases "seq_forward lib tr ls x t") auto
  with seq_forward_empty[of lib tr ls t] True have "r = Inr []" by simp
  with sf True show ?thesis by simp
next
  case False
  obtain r ls' t' where sf: "seq_forward lib tr ls x t = (r, ls', t')"
    by (cases "seq_forward lib tr ls x t") auto
  from seq_forward_shape[OF False x ok, where tr=tr and lib=lib and t=t] w[OF False] sf
  show ?thesis by auto
qed

lemma Encoder_ok: "list_all layer_ok (fst (Encoder lib F H E bn t0))"
  by (auto simp: Encoder_def nn_Linear_def nn_BatchNorm1d_def Let_def list_all_iff split: prod.splits)

lemma Decoder_ok: "list_all layer_ok (fst (Decoder lib F H E bn t0))"
  by (auto simp: Decoder_def nn_Linear_def nn_BatchNorm1d_def Let_def list_all_iff split: prod.splits)

lemma built_like_Encoder: "built_like (fst (Encoder lib F H E bn t0)) (fst (Encoder lib' F H E bn t1))"
  by (auto simp: built_like_def Encoder_ok)
     (auto simp: Encoder_def nn_Linear_def nn_BatchNorm1d_def Let_def split: prod.splits)

lemma built_like_Decoder: "built_like (fst (Decoder lib F H E bn t0)) (fst (Decoder lib' F H E bn t1))"
  by (auto simp: built_like_def Decoder_ok)
     (auto simp: Decoder_def nn_Linear_def nn_BatchNorm1d_def Let_def split: prod.splits)

lemma encoder_forward:
  assumes b: "built_like enc (fst (Encoder lib' F H E bn t0))"
    and x: "list_all (\<lambda>r. length r = F) x"
    and n: "bn \<and> tr \<longrightarrow> length x \<noteq> 1"
  shows "\<exists>h enc' t'. seq_forward lib tr enc x t = (Inr h, enc', t') \<and> length h = length x \<and>
           list_all (\<lambda>r. length r = E) h"
proof -
  have "seq_width tr (length x) enc F = seq_width tr (length x) (map topology enc) F"
    by (simp add: seq_width_topology)
  also have "\<dots> = seq_width tr (length x) (map topology (fst (Encoder lib' F H E bn t0))) F"
    using b by (simp add: built_like_def)
  also have "\<dots> = Inr E" using n by (simp add: Encoder_width)
  finally have "seq_width tr (length x) enc F = Inr E" .
  with net_forward[of enc F x tr E lib t] b x show ?thesis by (simp add: built_like_def)
qed

lemma decoder_forward:
  assumes b: "built_like dec (fst (Decoder lib' F H E bn t0))"
    and x: "list_all (\<lambda>r. length r = E) h"
    and n: "bn \<and> tr \<longrightarrow> length h \<noteq> 1"
  shows "\<exists>y dec' t'. seq_forward lib tr dec h t = (Inr y, dec', t') \<and> length y = length h \<and>
           list_all (\<lambda>r. length r = F) y \<and> (\<forall>r\<in>set y. \<forall>v\<in>set r. 0 < v \<and> v < 1)"
proof -
  have "seq_width tr (length h) dec E = seq_width tr (length h) (map topology dec) E"
    by (simp add: seq_width_topology)
  also have "\<dots> = seq_width tr (length h) (map topology (fst (Decoder lib' F H E bn t0))) E"
    using b by (simp add: built_like_def)
  also have "\<dots> = Inr F" using n by (simp add: Decoder_width)
  finally have "seq_width tr (length h) dec E = Inr F" .
  with net_forward[of dec E h tr F lib t] b x
  obtain y dec' t' where y: "seq_forward lib tr dec h t = (Inr y, dec', t')" "length y = length h"
      "list_all (\<lambda>r. length r = F) y"
    by (auto simp: built_like_def)
  have ne: "dec \<noteq> []" using b Decoder_last[of lib' F H E bn t0] by (auto simp: built_like_def)
  have "last (map topology dec) = Sigmoid"
    using b Decoder_last[of lib' F H E bn t0] by (simp add: built_like_def)
  then have "last dec = Sigmoid" using ne by (simp add: last_map topology_Sigmoid)
  from seq_forward_sigmoid[OF ne this, of lib tr h t y] y(1)
  have "\<forall>r\<in>set y. \<forall>v\<in>set r. 0 < v \<and> v < 1" by simp
  with y show ?thesis by blast
qed




section \<open>Training and validation\<close>

lemma mse_loss_same_shape:
  assumes "length a = length b" "list_all (\<lambda>r. length r = F) a" "list_all (\<lambda>r. length r = F) b"
  shows "\<exists>l. mse_loss a b = Inr l"
proof -
  have "width a = width b" using assms by (cases a; cases b) (auto simp: width_def)
  with assms(1) show ?thesis by (simp add: mse_loss_def bdim_def Let_def)
qed

lemma get_val_loss_unfold:
  "get_val_loss lib x y s =
     (case seq_forward lib False (encoder s) x (rng s) of
        (Inl e, enc', t') \<Rightarrow>
          (Inl e, (reset False s)\<lparr>calls := calls s @ [Forward EncoderNet]\<rparr>)
      | (Inr h, enc', t') \<Rightarrow>
          (case seq_forward lib False (decoder s) h (rng s) of
             (Inl e, dec', t'') \<Rightarrow>
               (Inl e, (reset False s)\<lparr>calls := calls s @ [Forward EncoderNet, Forward DecoderNet]\<rparr>)
           | (Inr d, dec', t'') \<Rightarrow>
               (mse_loss d y,
                (reset False s)\<lparr>calls := calls s @ [Forward EncoderNet, Forward DecoderNet, Criterion]\<rparr>)))"
proof -
  obtain r1 e1 t1 where a: "seq_forward lib False (encoder s) x (rng s) = (r1, e1, t1)"
    by (cases "seq_forward lib False (encoder s) x (rng s)") auto
  from seq_forward_eval[OF a] have a': "e1 = encoder s" "t1 = rng s" by simp_all
  show ?thesis
  proof (cases r1)
    case (Inl e)
    with a a' show ?thesis
      by (simp add: get_val_loss_def run_encoder_def module_forward_def note_call_def reset_def)
  next
    case (Inr h)
    obtain r2 e2 t2 where b: "seq_forward lib False (decoder s) h (rng s) = (r2, e2, t2)"
      by (cases "seq_forward lib False (decoder s) h (rng s)") auto
    from seq_forward_eval[OF b] have b': "e2 = decoder s" "t2 = rng s" by simp_all
    show ?thesis
    proof (cases r2)
      case (Inl e)
      with a a' Inr b b' show ?thesis
        by (simp add: get_val_loss_def run_encoder_def run_decoder_def module_forward_def
            note_call_def reset_def)
    next
      case r2: (Inr d)
      with a a' Inr b b' show ?thesis
        by (cases "mse_loss d y")
           (simp_all add: get_val_loss_def run_encoder_def run_decoder_def module_forward_def
            note_call_def reset_def)
    qed
  qed
qed

lemma forward_loss_eval:
  "forward_loss lib (enc, False) (dec, False) t x y =
     (case seq_forward lib False enc x t of
        (Inl e, enc', t') \<Rightarrow> Inl e
      | (Inr h, enc', t') \<Rightarrow>
          (case seq_forward lib False dec h t of
             (Inl e, dec', t'') \<Rightarrow> Inl e
           | (Inr d, dec', t'') \<Rightarrow> mse_loss d y))"
proof -
  obtain r1 e1 t1 where a: "seq_forward lib False enc x t = (r1, e1, t1)"
    by (cases "seq_forward lib False enc x t") auto
  from seq_forward_eval[OF a] have "t1 = t" by simp
  with a show ?thesis by (simp add: forward_loss_def split: sum.splits)
qed

lemma get_val_loss_value:
  "fst (get_val_loss lib x y s) = forward_loss lib (encoder s, False) (decoder s, False) (rng s) x y"
  by (simp add: get_val_loss_unfold forward_loss_eval split: prod.splits sum.splits)

lemma get_val_loss_state:
  "\<exists>evs. snd (get_val_loss lib x y s) = (reset False s)\<lparr>calls := calls s @ evs\<rparr> \<and>
         set evs \<subseteq> {Forward EncoderNet, Forward DecoderNet, Criterion}"
proof -
  obtain r1 e1 t1 where a: "seq_forward lib False (encoder s) x (rng s) = (r1, e1, t1)"
    by (cases "seq_forward lib False (encoder s) x (rng s)") auto
  show ?thesis
  proof (cases r1)
    case (Inl e)
    with a have "snd (get_val_loss lib x y s) = (reset False s)\<lparr>calls := calls s @ [Forward EncoderNet]\<rparr>"
      by (simp add: get_val_loss_unfold)
    then show ?thesis by (intro exI[of _ "[Forward EncoderNet]"]) simp
  next
    case (Inr h)
    obtain r2 e2 t2 where b: "seq_forward lib False (decoder s) h (rng s) = (r2, e2, t2)"
      by (cases "seq_forward lib False (decoder s) h (rng s)") auto
    show ?thesis
    proof (cases r2)
      case (Inl e)
      with a Inr b have "snd (get_val_loss lib x y s) =
          (reset False s)\<lparr>calls := calls s @ [Forward EncoderNet, Forward DecoderNet]\<rparr>"
        by (simp add: get_val_loss_unfold)
      then show ?thesis by (intro exI[of _ "[Forward EncoderNet, Forward DecoderNet]"]) simp
    next
      case r2: (Inr d)
      with a Inr b have "snd (get_val_loss lib x y s) =
          (reset False s)\<lparr>calls := calls s @ [Forward EncoderNet, Forward DecoderNet, Criterion]\<rparr>"
        by (simp add: get_val_loss_unfold)
      then show ?thesis
        by (intro exI[of _ "[Forward EncoderNet, Forward DecoderNet, Criterion]"]) simp
    qed
  qed
qed

lemma get_val_loss_returns:
  assumes "built_like (encoder s) (fst (Encoder lib' F H E bn t0))"
    and "built_like (decoder s) (fst (Decoder lib' F H E bn t1))"
    and "list_all (\<lambda>r. length r = F) x" and "list_all (\<lambda>r. length r = F) y"
    and "length y = length x"
  shows "\<exists>loss. fst (get_val_loss lib x y s) = Inr loss"
proof -
  from encoder_forward[OF assms(1,3), of False lib "rng s"]
  obtain h enc' t' where h: "seq_forward lib False (encoder s) x (rng s) = (Inr h, enc', t')"
      "length h = length x" "list_all (\<lambda>r. length r = E) h"
    by auto
  from decoder_forward[OF assms(2) h(3), of False lib "rng s"]
  obtain d dec' t'' where d: "seq_forward lib False (decoder s) h (rng s) = (Inr d, dec', t'')"
      "length d = length h" "list_all (\<lambda>r. length r = F) d"
    by auto
  from mse_loss_same_shape[of d y F] d h assms obtain l where "mse_loss d y = Inr l" by auto
  with h d show ?thesis by (simp add: get_val_loss_unfold)
qed

text \<open>
  C6. \<^verbatim>\<open>get_val_loss\<close> puts both networks in evaluation mode and returns the loss of the
  same pass \<^verbatim>\<open>train_step\<close> makes (encoder, then decoder, then the mean squared
  error against the target), computed in evaluation mode. It takes no gradient step:
  the parameters and buffers of both networks, the accumulated gradients, both
  optimizers and the generator are as before, and the only library calls are the two
  forward passes and the criterion. For well-formed networks and a batch and target of
  the configured width and equal length it does return a loss.
\<close>

theorem get_val_loss_no_update:
  "fst (get_val_loss lib x y s) =
     forward_loss lib (encoder s, False) (decoder s, False) (rng s) x y \<and>
   encoder (snd (get_val_loss lib x y s)) = encoder s \<and>
   decoder (snd (get_val_loss lib x y s)) = decoder s \<and>
   encoder_grad (snd (get_val_loss lib x y s)) = encoder_grad s \<and>
   decoder_grad (snd (get_val_loss lib x y s)) = decoder_grad s \<and>
   encoder_optimizer (snd (get_val_loss lib x y s)) = encoder_optimizer s \<and>
   decoder_optimizer (snd (get_val_loss lib x y s)) = decoder_optimizer s \<and>
   rng (snd (get_val_loss lib x y s)) = rng s \<and>
   \<not> encoder_training (snd (get_val_loss lib x y s)) \<and>
   \<not> decoder_training (snd (get_val_loss lib x y s)) \<and>
   (\<exists>evs. calls (snd (get_val_loss lib x y s)) = calls s @ evs \<and>
          set evs \<subseteq> {Forward EncoderNet, Forward DecoderNet, Criterion}) \<and>
   (built_like (encoder s) (fst (Encoder lib' F H E bn t0)) \<and>
    built_like (decoder s) (fst (Decoder lib' F H E bn t1)) \<and>
    list_all (\<lambda>r. length r = F) x \<and> list_all (\<lambda>r. length r = F) y \<and> length y = length x
    \<longrightarrow> (\<exists>loss. fst (get_val_loss lib x y s) = Inr loss))"
proof -
  obtain evs where evs: "snd (get_val_loss lib x y s) = (reset False s)\<lparr>calls := calls s @ evs\<rparr>"
      "set evs \<subseteq> {Forward EncoderNet, Forward DecoderNet, Criterion}"
    using get_val_loss_state by blast
  have frame: "encoder (snd (get_val_loss lib x y s)) = encoder s"
      "decoder (snd (get_val_loss lib x y s)) = decoder s"
      "encoder_grad (snd (get_val_loss lib x y s)) = encoder_grad s"
      "decoder_grad (snd (get_val_loss lib x y s)) = decoder_grad s"
      "encoder_optimizer (snd (get_val_loss lib x y s)) = encoder_optimizer s"
      "decoder_optimizer (snd (get_val_loss lib x y s)) = decoder_optimizer s"
      "rng (snd (get_val_loss lib x y s)) = rng s"
      "\<not> encoder_training (snd (get_val_loss lib x y s))"
      "\<not> decoder_training (snd (get_val_loss lib x y s))"
    by (simp_all add: evs(1) reset_def)
  have log: "\<exists>evs. calls (snd (get_val_loss lib x y s)) = calls s @ evs \<and>
          set evs \<subseteq> {Forward EncoderNet, Forward DecoderNet, Criterion}"
    using evs by (intro exI[of _ evs]) simp
  have ret: "built_like (encoder s) (fst (Encoder lib' F H E bn t0)) \<and>
    built_like (decoder s) (fst (Decoder lib' F H E bn t1)) \<and>
    list_all (\<lambda>r. length r = F) x \<and> list_all (\<lambda>r. length r = F) y \<and> length y = length x
    \<longrightarrow> (\<exists>loss. fst (get_val_loss lib x y s) = Inr loss)"
    using get_val_loss_returns[of s lib' F H E bn t0 t1 x y lib] by blast
  show ?thesis
    by (intro conjI) (rule get_val_loss_value frame log ret)+
qed

text \<open>The validation loss of the object \<open>ae0\<close> on its validation row.\<close>

theorem get_val_loss_no_update_witness:
  "encoder (snd (get_val_loss lib0 (val ae0) (val ae0) ae0)) = encoder ae0 \<and>
   decoder (snd (get_val_loss lib0 (val ae0) (val ae0) ae0)) = decoder ae0 \<and>
   encoder_optimizer (snd (get_val_loss lib0 (val ae0) (val ae0) ae0)) = 0 \<and>
   (\<exists>loss. fst (get_val_loss lib0 (val ae0) (val ae0) ae0) = Inr loss)"
proof -
  have b: "built_like (encoder ae0) (fst (Encoder lib0 2 3 1 True 0))"
      "built_like (decoder ae0) (fst (Decoder lib0 2 3 1 True 2))"
    by (simp_all add: ae0_def built_like_Encoder built_like_Decoder)
  have x: "list_all (\<lambda>r. length r = 2) (val ae0)" "length (val ae0) = length (val ae0)"
    by (simp_all add: ae0_def)
  have o: "encoder_optimizer ae0 = 0" by (simp add: ae0_def)
  note th = get_val_loss_no_update[of lib0 "val ae0" "val ae0" ae0 lib0 2 3 1 True 0 2]
  from th have 1: "encoder (snd (get_val_loss lib0 (val ae0) (val ae0) ae0)) = encoder ae0"
    by (elim conjE)
  from th have 2: "decoder (snd (get_val_loss lib0 (val ae0) (val ae0) ae0)) = decoder ae0"
    by (elim conjE)
  from th have 3: "encoder_optimizer (snd (get_val_loss lib0 (val ae0) (val ae0) ae0)) = encoder_optimizer ae0"
    by (elim conjE)
  from th b x have 4: "\<exists>loss. fst (get_val_loss lib0 (val ae0) (val ae0) ae0) = Inr loss"
    by (elim conjE) simp
  from 1 2 3 4 o show ?thesis by simp
qed



















text \<open>A new object starts with two empty histories.\<close>

lemma AutoEncoder_losses:
  "AutoEncoder lib np dat p lr H E bn h = (Inr s0, h') \<Longrightarrow> train_losses s0 = [] \<and> val_losses s0 = []"
  by (auto simp: AutoEncoder_def Let_def split: prod.splits sum.splits)




section \<open>Encoding the data\<close>

text \<open>
  C1 does not hold of the code. \<^verbatim>\<open>get_encoded_representations\<close> hands the encoder the
  NumPy array \<open>self.data\<close>, not the tensor \<open>to_encode\<close> it has just made from it, and
  the encoder's first module refuses what is not a tensor: for every object the method
  raises \<^verbatim>\<open>TypeError\<close> and returns no latent vectors (and leaves the encoder as it is).
\<close>

theorem get_encoded_representations_raises:
  "fst (get_encoded_representations lib s) = Inl TypeError \<and>
   encoder (snd (get_encoded_representations lib s)) = encoder s"
  by (simp add: get_encoded_representations_def run_encoder_def module_forward_def Let_def note_call_def reset_def)

text \<open>
  What the line commented out in the method would do, the encoder run on the tensor in
  evaluation mode: one latent row of the encoding size for every row of the data.
\<close>

lemma intended_encoding:
  assumes "built_like (encoder s) (fst (Encoder lib' (width (data s)) H E bn t0))"
    and "list_all (\<lambda>r. length r = width (data s)) (data s)"
  shows "\<exists>h s'. run_encoder lib (Tensor (data s)) (reset False s) = (Inr h, s') \<and>
           length h = length (data s) \<and> list_all (\<lambda>r. length r = E) h"
proof -
  from encoder_forward[OF assms(1,2), of False lib "rng s"]
  obtain h enc' t' where "seq_forward lib False (encoder s) (data s) (rng s) = (Inr h, enc', t')"
      "length h = length (data s)" "list_all (\<lambda>r. length r = E) h"
    by auto
  then show ?thesis
    by (simp add: run_encoder_def module_forward_def reset_def)
qed

section \<open>Checkpoints\<close>

lemma load_decoder_keeps_decoder:
  "decoder (snd (load_decoder fs s)) = decoder s"
  by (simp add: load_decoder_def split: sum.splits prod.splits)

text \<open>
  C3 does not hold of the code: \<^verbatim>\<open>load_decoder\<close> loads the decoder's checkpoint into
  the encoder, whose names (\<^verbatim>\<open>encoder.0.weight\<close>, \<dots>) the checkpoint
  (\<^verbatim>\<open>decoder.0.weight\<close>, \<dots>) does not contain, so the non-strict load copies nothing.
  The decoder of \<open>ae_a\<close> is saved; the object then holds another decoder (as after more
  training); \<^verbatim>\<open>load_decoder\<close> returns normally and the object still holds that other
  decoder, not the saved one. The same round trip for the encoder, with
  \<^verbatim>\<open>save_encoder\<close> and \<^verbatim>\<open>load_encoder\<close>, does restore the saved encoder.
\<close>

theorem load_decoder_does_not_restore:
  "fst (save_decoder ae_a fs0) = Inr () \<and>
   load_decoder (snd (save_decoder ae_a fs0)) (ae_a\<lparr>decoder := dec_b\<rparr>) = (Inr (), ae_a\<lparr>decoder := dec_b\<rparr>) \<and>
   decoder (ae_a\<lparr>decoder := dec_b\<rparr>) \<noteq> decoder ae_a \<and>
   fst (save_encoder ae_a fs0) = Inr () \<and>
   load_encoder (snd (save_encoder ae_a fs0)) (ae_a\<lparr>encoder := enc_b\<rparr>) = (Inr (), ae_a)"
  by (simp add: save_decoder_def save_encoder_def load_decoder_def load_encoder_def torch_save_def
      torch_load_def fs0_def ae_a_def enc_a_def enc_b_def dec_a_def dec_b_def
      get_state_dict_def load_state_dict_def module_key_def load_entry_def enumerate_eq_zip
      digit_char_def upt_rec)

lemma sigmoid_inj: "sigmoid a = sigmoid b \<Longrightarrow> a = b"
proof -
  assume "sigmoid a = sigmoid b"
  moreover have "0 < 1 + exp (- a)" "0 < 1 + exp (- b)" by (simp_all add: add_pos_pos)
  ultimately have "1 + exp (- a) = 1 + exp (- b)"
    by (simp add: sigmoid_def field_simps)
  then show ?thesis by simp
qed

text \<open>
  In that scenario the decoder's output on the input 1 after save and load is not its
  output at the time of saving.
\<close>

theorem load_decoder_output_differs:
  "fst (seq_forward lib0 False (decoder (snd (load_decoder (snd (save_decoder ae_a fs0)) (ae_a\<lparr>decoder := dec_b\<rparr>)))) [[1]] 0)
     = Inr [[sigmoid 2]] \<and>
   fst (seq_forward lib0 False (decoder ae_a) [[1]] 0) = Inr [[sigmoid 1]] \<and>
   sigmoid 2 \<noteq> sigmoid 1"
proof -
  have "sigmoid 2 \<noteq> sigmoid 1" using sigmoid_inj[of 2 1] by auto
  then show ?thesis
    by (simp add: load_decoder_keeps_decoder ae_a_def dec_a_def dec_b_def linear_row_def dot_def)
qed

section \<open>The samples of the data set\<close>







section \<open>The text embeddings\<close>

text \<open>
  C9 does not hold of the code: for the selector \<^verbatim>\<open>tf-idf\<close>, \<^verbatim>\<open>get_embedding\<close>
  returns what \<^verbatim>\<open>get_tf_idf_embedding\<close> returns, and that is never an array: it is
  \<^verbatim>\<open>None\<close> whenever the vectorizer succeeds, and the vectorizer's exception otherwise.
\<close>

theorem tf_idf_returns_no_vector:
  "get_embedding lib s ''tf-idf'' keys =
     (case fit_transform lib s of Inl e \<Rightarrow> Inl e | Inr m \<Rightarrow> Inr PyNone) \<and>
   get_embedding lib s ''tf-idf'' keys \<noteq> Inr (Array v)"
  by (simp add: get_embedding_def get_tf_idf_embedding_def split: sum.splits)

lemma mark_tokens_indicator:
  "mark_tokens lib keys toks m = Inr m' \<Longrightarrow>
     length m' = length m \<and> (set m \<subseteq> {0, 1} \<longrightarrow> set m' \<subseteq> {0, 1})"
proof (induction toks arbitrary: m)
  case Nil
  then show ?case by simp
next
  case (Cons token rest)
  from Cons.prems obtain k where k: "list_index keys (bow_key lib token) = Some k"
    by (cases "list_index keys (bow_key lib token)") auto
  with Cons.prems have "mark_tokens lib keys rest (m[k := 1]) = Inr m'" by simp
  from Cons.IH[OF this] have "length m' = length m"
      "set (m[k := 1]) \<subseteq> {0, 1} \<longrightarrow> set m' \<subseteq> {0, 1}" by simp_all
  moreover have "set m \<subseteq> {0, 1} \<Longrightarrow> set (m[k := 1]) \<subseteq> {0, 1}"
    using set_update_subset_insert[of m k 1] by auto
  ultimately show ?case by blast
qed

text \<open>
  For the selector \<^verbatim>\<open>bow\<close> the part of C9 about the bag of words holds: when
  \<^verbatim>\<open>get_bow_embedding\<close> returns, it returns one row with an entry 0 or 1 for every
  key of the dictionary (it raises \<^verbatim>\<open>ValueError\<close> on a token that is no key).
\<close>

lemma bow_embedding_indicator:
  assumes "get_bow_embedding lib s keys = Inr r"
  shows "\<exists>m. r = Array [m] \<and> length m = length keys \<and> set m \<subseteq> {0, 1}"
proof -
  from assms obtain m where m: "mark_tokens lib keys (bow_tokens lib s) (replicate (length keys) 0) = Inr m"
      "r = Array [m]"
    by (auto simp: get_bow_embedding_def split: sum.splits)
  from mark_tokens_indicator[OF m(1)] have "length m = length keys" "set m \<subseteq> {0, 1}" by auto
  with m(2) show ?thesis by blast
qed

end
